theory Spec2Isabelle
  imports Main "HOL-Library.AList"
begin

unbundle bit_operations_syntax

section \<open>Provider registration replication (sync.py)\<close>

text \<open>
  The program reads the resource-provider registrations of a source and of a
  destination Azure subscription, computes the changes a replication strategy asks
  for, shows them, asks the operator to confirm and applies them.

  Conventions of the model:
  \<^item> a Python \<open>str\<close> is a \<open>string\<close>; a character stands for the code point of
    the same number (the range U+0000 to U+00FF);
  \<^item> a Python \<open>dict\<close> is the list of its items in insertion order, the order in
    which Python iterates it; a list stands for a dict when its keys are distinct;
  \<^item> a raised exception is the \<open>Inl\<close> of a result, an ordinary return the \<open>Inr\<close>.
\<close>

subsection \<open>Exceptions\<close>

datatype error =
    NotImplementedError string
  | RuntimeError string
  | ValueError string
  | KeyError string
  | IndexError
  | EOFError
  | ServiceError string

subsection \<open>Registrations: \<open>dict[str, bool]\<close>\<close>

type_synonym Registrations = "(string \<times> bool) list"

text \<open>\<open>k in d\<close>\<close>

definition contains :: "Registrations \<Rightarrow> string \<Rightarrow> bool" where
  "contains d k = (k \<in> set (map fst d))"

text \<open>\<open>d[k]\<close>, which raises \<open>KeyError\<close> for a missing key\<close>

definition getitem :: "Registrations \<Rightarrow> string \<Rightarrow> error + bool" where
  "getitem d k = (case map_of d k of None \<Rightarrow> Inl (KeyError k) | Some v \<Rightarrow> Inr v)"

text \<open>
  \<open>d[k] = v\<close>: an existing key keeps its place and takes the new value, a new
  key goes to the end.
\<close>

definition setitem :: "Registrations \<Rightarrow> string \<Rightarrow> bool \<Rightarrow> Registrations" where
  "setitem d k v = AList.update k v d"

subsection \<open>\<open>repr\<close> of a string\<close>

text \<open>
  \<open>repr(s)\<close> puts the string in quotes: double quotes when it has a single quote
  and no double quote, single quotes otherwise. Inside, the backslash and the quote
  in use get a backslash; tab, newline and carriage return are written \<open>\t\<close>, \<open>\n\<close>
  and \<open>\r\<close>; the other characters that are not printable (below U+0020, U+007F to
  U+00A0, and U+00AD) are written \<open>\xhh\<close> with two lower-case hexadecimal digits.
\<close>

definition hex_of_nibble :: "nat \<Rightarrow> char" where
  "hex_of_nibble d = ''0123456789abcdef'' ! (d mod 16)"

definition repr_quote :: "string \<Rightarrow> char" where
  "repr_quote s =
     (if CHR 0x27 \<in> set s \<and> CHR 0x22 \<notin> set s then CHR 0x22 else CHR 0x27)"

definition repr_char :: "char \<Rightarrow> char \<Rightarrow> string" where
  "repr_char quote c =
     (let n = (of_char c :: nat)
      in if c = quote \<or> c = CHR 0x5C then [CHR 0x5C, c]
         else if n = 9 then [CHR 0x5C, CHR ''t'']
         else if n = 10 then [CHR 0x5C, CHR ''n'']
         else if n = 13 then [CHR 0x5C, CHR ''r'']
         else if n < 32 \<or> n = 127 \<or> (128 \<le> n \<and> n \<le> 160) \<or> n = 173
         then [CHR 0x5C, CHR ''x'', hex_of_nibble (n div 16), hex_of_nibble (n mod 16)]
         else [c])"

definition repr_str :: "string \<Rightarrow> string" where
  "repr_str s = repr_quote s # concat (map (repr_char (repr_quote s)) s) @ [repr_quote s]"

subsection \<open>\<open>ReplicationStrategy\<close>\<close>

text \<open>
  \<open>ReplicationStrategy\<close> is a \<open>StrEnum\<close>: each member is a \<open>str\<close> and compares
  equal to its value. The strategy argument of the functions below is therefore a
  string, and a member is passed as \<open>strategy_value\<close> of it.
\<close>

datatype ReplicationStrategy = ECHO | SYNC

fun strategy_value :: "ReplicationStrategy \<Rightarrow> string" where
  "strategy_value ECHO = ''echo''"
| "strategy_value SYNC = ''sync''"

definition DEFAULT_REPLICATION_STRATEGY :: ReplicationStrategy where
  "DEFAULT_REPLICATION_STRATEGY = ECHO"

text \<open>
  The call \<open>ReplicationStrategy(strategy_name)\<close>: the member with that value, or
  the enumeration's \<open>ValueError\<close>, whose message is
  \<open>"%r is not a valid %s" % (value, cls.__qualname__)\<close>.
\<close>

definition ReplicationStrategy_call :: "string \<Rightarrow> error + ReplicationStrategy" where
  "ReplicationStrategy_call strategy_name =
     (if strategy_name = strategy_value ECHO then Inr ECHO
      else if strategy_name = strategy_value SYNC then Inr SYNC
      else Inl (ValueError (repr_str strategy_name @ '' is not a valid ReplicationStrategy'')))"

subsection \<open>\<open>generate_registration_delta\<close>\<close>

text \<open>
  The loop of \<open>case ReplicationStrategy.ECHO\<close> over \<open>source_registrations.items()\<close>;
  the last argument is \<open>registration_delta\<close> as built so far.
\<close>

fun echo_loop :: "Registrations \<Rightarrow> Registrations \<Rightarrow> Registrations \<Rightarrow> error + Registrations" where
  "echo_loop [] destination_registrations registration_delta = Inr registration_delta"
| "echo_loop ((provider, enabled) # items) destination_registrations registration_delta =
     (if enabled \<and> contains destination_registrations provider then
        (case getitem destination_registrations provider of
           Inl e \<Rightarrow> Inl e
         | Inr d \<Rightarrow>
             if \<not> d
             then echo_loop items destination_registrations (setitem registration_delta provider True)
             else echo_loop items destination_registrations registration_delta)
      else echo_loop items destination_registrations registration_delta)"

text \<open>
  The loop of \<open>case ReplicationStrategy.SYNC\<close>. It reads the source value a second
  time through \<open>source_registrations[provider]\<close>, so the whole source dict is an
  argument beside the items still to visit.
\<close>

fun sync_loop ::
  "Registrations \<Rightarrow> Registrations \<Rightarrow> Registrations \<Rightarrow> Registrations \<Rightarrow> error + Registrations" where
  "sync_loop [] source_registrations destination_registrations registration_delta =
     Inr registration_delta"
| "sync_loop ((provider, enabled) # items) source_registrations destination_registrations
       registration_delta =
     (if contains destination_registrations provider then
        (case getitem source_registrations provider of
           Inl e \<Rightarrow> Inl e
         | Inr s \<Rightarrow>
             (case getitem destination_registrations provider of
                Inl e \<Rightarrow> Inl e
              | Inr d \<Rightarrow>
                  if \<not> (s = d)
                  then sync_loop items source_registrations destination_registrations
                         (setitem registration_delta provider enabled)
                  else sync_loop items source_registrations destination_registrations
                         registration_delta))
      else sync_loop items source_registrations destination_registrations registration_delta)"

text \<open>
  The \<open>match\<close> statement compares the strategy with each member by \<open>==\<close>, in
  the order written, and falls through to \<open>case _\<close>.
\<close>

definition generate_registration_delta ::
  "Registrations \<Rightarrow> Registrations \<Rightarrow> string \<Rightarrow> error + Registrations" where
  "generate_registration_delta source_registrations destination_registrations strategy =
     (if strategy = strategy_value ECHO then
        echo_loop source_registrations destination_registrations []
      else if strategy = strategy_value SYNC then
        sync_loop source_registrations source_registrations destination_registrations []
      else
        Inl (NotImplementedError (''Unrecognized replication strategy '' @ strategy @ ''!'')))"

section \<open>Strings\<close>

text \<open>\<open>str.isspace\<close> of one character, which \<open>str.strip()\<close> uses\<close>

definition isspace :: "char \<Rightarrow> bool" where
  "isspace c =
     (let n = (of_char c :: nat)
      in (9 \<le> n \<and> n \<le> 13) \<or> (28 \<le> n \<and> n \<le> 32) \<or> n = 133 \<or> n = 160)"

text \<open>\<open>s.strip()\<close>\<close>

definition strip :: "string \<Rightarrow> string" where
  "strip s = rev (dropWhile isspace (rev (dropWhile isspace s)))"

text \<open>\<open>s.strip(chars)\<close>\<close>

definition strip_chars :: "string \<Rightarrow> string \<Rightarrow> string" where
  "strip_chars s chars =
     rev (dropWhile (\<lambda>c. c \<in> set chars) (rev (dropWhile (\<lambda>c. c \<in> set chars) s)))"

text \<open>\<open>s.lower()\<close>: the capital letters A to Z and U+00C0 to U+00DE (U+00D7 is the
  multiplication sign) move 32 places up.\<close>

definition lower_char :: "char \<Rightarrow> char" where
  "lower_char c =
     (let n = (of_char c :: nat)
      in if (65 \<le> n \<and> n \<le> 90) \<or> (192 \<le> n \<and> n \<le> 222 \<and> n \<noteq> 215)
         then char_of (n + 32) else c)"

definition lower :: "string \<Rightarrow> string" where
  "lower s = map lower_char s"

text \<open>\<open>s.ljust(width)\<close>\<close>

definition ljust :: "string \<Rightarrow> nat \<Rightarrow> string" where
  "ljust s width = s @ replicate (width - length s) CHR '' ''"

text \<open>
  \<open>s.replace(old, new)\<close>: the occurrences of \<open>old\<close> found from left to right,
  without overlap, in one pass; an empty \<open>old\<close> matches before every character
  and at the end.
\<close>

function replace :: "string \<Rightarrow> string \<Rightarrow> string \<Rightarrow> string" where
  "replace [] old new = (if old = [] then new else [])"
| "replace (c # cs) old new =
     (if old = [] then new @ c # replace cs old new
      else if take (length old) (c # cs) = old
      then new @ replace (drop (length old) (c # cs)) old new
      else c # replace cs old new)"
  by pat_completeness auto
termination
  by (relation "measure (\<lambda>(s, old, new). length s)") auto

section \<open>\<open>int(s, 16)\<close>\<close>

text \<open>
  The built-in \<open>int\<close> with base 16 on a string: white space around the number, a
  sign, the prefix \<open>0x\<close> or \<open>0X\<close>, then digits with single underscores between
  them. The white space it skips is U+0009 to U+000D and the space, and U+0085 and
  U+00A0, which it turns into spaces beforehand.
\<close>

definition int_space :: "char \<Rightarrow> bool" where
  "int_space c =
     (let n = (of_char c :: nat) in (9 \<le> n \<and> n \<le> 13) \<or> n = 32 \<or> n = 133 \<or> n = 160)"

definition digit_value :: "char \<Rightarrow> nat option" where
  "digit_value c =
     (let n = (of_char c :: nat)
      in if 48 \<le> n \<and> n \<le> 57 then Some (n - 48)
         else if 97 \<le> n \<and> n \<le> 122 then Some (n - 87)
         else if 65 \<le> n \<and> n \<le> 90 then Some (n - 55)
         else None)"

text \<open>
  The scan over digits and underscores. The flag says that the previous character
  was an underscore; the result is the value read and the rest of the string, or
  \<open>None\<close> for two underscores in a row or an underscore at the end of the digits.
\<close>

fun scan_digits :: "string \<Rightarrow> bool \<Rightarrow> int \<Rightarrow> (int \<times> string) option" where
  "scan_digits [] prev_underscore acc = (if prev_underscore then None else Some (acc, []))"
| "scan_digits (c # cs) prev_underscore acc =
     (if c = CHR ''_'' then (if prev_underscore then None else scan_digits cs True acc)
      else case digit_value c of
             None \<Rightarrow> if prev_underscore then None else Some (acc, c # cs)
           | Some d \<Rightarrow>
               if d < 16 then scan_digits cs False (acc * 16 + int d)
               else if prev_underscore then None else Some (acc, c # cs))"

definition skip_sign :: "string \<Rightarrow> int \<times> string" where
  "skip_sign s =
     (case s of
        [] \<Rightarrow> (1, [])
      | c # cs \<Rightarrow> if c = CHR ''+'' then (1, cs) else if c = CHR ''-'' then (- 1, cs) else (1, s))"

definition skip_prefix :: "string \<Rightarrow> string" where
  "skip_prefix s =
     (case s of
        c0 # c1 # cs \<Rightarrow>
          if c0 = CHR ''0'' \<and> (c1 = CHR ''x'' \<or> c1 = CHR ''X'')
          then (case cs of [] \<Rightarrow> cs | u # cs' \<Rightarrow> if u = CHR ''_'' then cs' else cs)
          else s
      | _ \<Rightarrow> s)"

text \<open>The message of the error ends with at most 200 characters of \<open>repr\<close> of the string.\<close>

definition int_base16 :: "string \<Rightarrow> error + int" where
  "int_base16 s =
     (let invalid =
            Inl (ValueError (''invalid literal for int() with base 16: '' @ take 200 (repr_str s)));
          (sign, s2) = skip_sign (dropWhile int_space s);
          s3 = skip_prefix s2
      in if take 1 s3 = ''_'' then invalid
         else case scan_digits s3 False 0 of
                None \<Rightarrow> invalid
              | Some (v, rest) \<Rightarrow>
                  if length rest = length s3 then invalid
                  else if dropWhile int_space rest \<noteq> [] then invalid
                  else Inr (sign * v))"

section \<open>\<open>uuid.UUID(hex=..., version=...)\<close>\<close>

text \<open>
  The constructor of the standard library's \<open>UUID\<close>, for the call the program makes:
  \<open>hex\<close> and \<open>version\<close> given. The result is the \<open>int\<close> attribute of the object
  built. A version is written over the bits of the number; it is not compared
  with them.
\<close>

definition set_variant_version :: "int \<Rightarrow> int \<Rightarrow> int" where
  "set_variant_version i version =
     (let i1 = i AND NOT (push_bit 48 0xc000);
          i2 = i1 OR push_bit 48 0x8000;
          i3 = i2 AND NOT (push_bit 64 0xf000)
      in i3 OR push_bit 76 version)"

definition UUID :: "string \<Rightarrow> int \<Rightarrow> error + int" where
  "UUID hex version =
     (let hex1 = replace (replace hex ''urn:'' '''') ''uuid:'' '''';
          hex2 = replace (strip_chars hex1 ''{}'') ''-'' ''''
      in if length hex2 \<noteq> 32 then Inl (ValueError ''badly formed hexadecimal UUID string'')
         else case int_base16 hex2 of
                Inl e \<Rightarrow> Inl e
              | Inr i \<Rightarrow>
                  if \<not> (0 \<le> i \<and> i < push_bit 128 1)
                  then Inl (ValueError ''int is out of range (need a 128-bit value)'')
                  else if \<not> (1 \<le> version \<and> version \<le> 5)
                  then Inl (ValueError ''illegal version number'')
                  else Inr (set_variant_version i version))"

text \<open>\<open>subscription_id_valid\<close>: the bare \<open>except\<close> turns every exception into \<open>False\<close>.\<close>

definition subscription_id_valid :: "string \<Rightarrow> bool" where
  "subscription_id_valid subscription_id =
     (case UUID subscription_id 4 of Inr u \<Rightarrow> True | Inl e \<Rightarrow> False)"

section \<open>The Azure API and the console\<close>

record Subscription =
  subscription_id :: string
  display_name :: string

record Provider =
  namespace :: string
  registration_state :: string

text \<open>
  What a run does to the world outside, in order: the calls to the Azure clients,
  the lines printed, and the prompt of \<open>input\<close>.
\<close>

datatype event =
    Subscriptions_get string
  | Providers_list string
  | Providers_register string string
  | Providers_unregister string string
  | Print string
  | Input string

text \<open>
  The answers of the Azure API, by subscription id (and namespace): a result or the
  exception the client raises.
\<close>

record azure =
  subscriptions_get :: "string \<Rightarrow> error + Subscription"
  providers_list :: "string \<Rightarrow> error + Provider list"
  providers_register :: "string \<Rightarrow> string \<Rightarrow> error option"
  providers_unregister :: "string \<Rightarrow> string \<Rightarrow> error option"

text \<open>A computation: the events so far, and an exception or a result.\<close>

type_synonym 'a io = "event list \<times> (error + 'a)"

text \<open>Sequencing: an exception ends the run and keeps the events before it.\<close>

definition bind_io :: "'a io \<Rightarrow> ('a \<Rightarrow> 'b io) \<Rightarrow> 'b io" where
  "bind_io m f =
     (case m of
        (t, Inl e) \<Rightarrow> (t, Inl e)
      | (t, Inr x) \<Rightarrow> (case f x of (t', r) \<Rightarrow> (t @ t', r)))"

definition get_subscription :: "azure \<Rightarrow> string \<Rightarrow> Subscription io" where
  "get_subscription az sid = ([Subscriptions_get sid], subscriptions_get az sid)"

definition get_subscription_registrations :: "azure \<Rightarrow> Subscription \<Rightarrow> Registrations io" where
  "get_subscription_registrations az subscription =
     bind_io
       ([Providers_list (subscription_id subscription)],
        providers_list az (subscription_id subscription))
       (\<lambda>all_providers.
          ([], Inr (fold (\<lambda>p d. setitem d (namespace p) (registration_state p = ''Registered''))
                     all_providers [])))"

definition set_subscription_registration ::
  "azure \<Rightarrow> Subscription \<Rightarrow> string \<Rightarrow> bool \<Rightarrow> unit io" where
  "set_subscription_registration az subscription ns val =
     (if val then
        bind_io
          ([Providers_register (subscription_id subscription) ns],
           case providers_register az (subscription_id subscription) ns of
             Some e \<Rightarrow> Inl e | None \<Rightarrow> Inr ())
          (\<lambda>_. ([Print (''Registering '' @ ns @ '' in '' @ subscription_id subscription
                        @ '' ('' @ display_name subscription @ '')'')], Inr ()))
      else
        bind_io
          ([Providers_unregister (subscription_id subscription) ns],
           case providers_unregister az (subscription_id subscription) ns of
             Some e \<Rightarrow> Inl e | None \<Rightarrow> Inr ())
          (\<lambda>_. ([Print (''Unregistering '' @ ns @ '' in '' @ subscription_id subscription
                        @ '' ('' @ display_name subscription @ '')'')], Inr ())))"

section \<open>\<open>delta_report\<close>\<close>

text \<open>
  \<open>sorted(keys, key=lambda x: len(x), reverse=True)\<close>: a stable sort, longest
  first, keys of one length in their order in the dict.
\<close>

definition sorted_by_len_reverse :: "string list \<Rightarrow> string list" where
  "sorted_by_len_reverse ks = rev (sort_key length (rev ks))"

text \<open>The element \<open>[0]\<close> of that list, plus 5; an empty list has no element 0.\<close>

definition namespace_width :: "Registrations \<Rightarrow> error + nat" where
  "namespace_width registration_delta =
     (case sorted_by_len_reverse (map fst registration_delta) of
        [] \<Rightarrow> Inl IndexError
      | k # ks \<Rightarrow> Inr (length k + 5))"

definition report_line :: "nat \<Rightarrow> string \<times> bool \<Rightarrow> string" where
  "report_line width kv =
     ljust (fst kv) width @ '' => '' @ (if snd kv then ''Register'' else ''Unregister'')"

definition delta_report :: "Registrations \<Rightarrow> unit io" where
  "delta_report registration_delta =
     (case namespace_width registration_delta of
        Inl e \<Rightarrow> ([], Inl e)
      | Inr width \<Rightarrow> (map (\<lambda>kv. Print (report_line width kv)) registration_delta, Inr ()))"

section \<open>\<open>apply_delta\<close>, \<open>replicate_registrations\<close> and \<open>main\<close>\<close>

fun apply_delta :: "azure \<Rightarrow> Subscription \<Rightarrow> Registrations \<Rightarrow> unit io" where
  "apply_delta az target_subscription [] = ([], Inr ())"
| "apply_delta az target_subscription ((ns, val) # registrations) =
     bind_io (set_subscription_registration az target_subscription ns val)
       (\<lambda>_. apply_delta az target_subscription registrations)"

text \<open>
  \<open>input(prompt)\<close> writes the prompt and returns the line typed, without its
  newline; at the end of the input it raises \<open>EOFError\<close>. The line the operator
  will type is an argument of the run, \<open>None\<close> for the end of the input.
\<close>

definition input :: "string \<Rightarrow> string option \<Rightarrow> string io" where
  "input prompt stdin =
     ([Input prompt], case stdin of None \<Rightarrow> Inl EOFError | Some line \<Rightarrow> Inr line)"

definition replicate_registrations ::
  "azure \<Rightarrow> Subscription \<Rightarrow> Subscription \<Rightarrow> string \<Rightarrow> string option \<Rightarrow> unit io" where
  "replicate_registrations az source destination strategy stdin =
     bind_io (get_subscription_registrations az source) (\<lambda>source_registrations.
     bind_io (get_subscription_registrations az destination) (\<lambda>destination_registrations.
     bind_io ([], generate_registration_delta source_registrations destination_registrations
                    strategy) (\<lambda>delta.
       if delta = [] then ([Print ''No delta found between subscriptions.''], Inr ())
       else
         bind_io ([Print (''The following changes will be made to subscription ''
                          @ subscription_id destination @ '' ('' @ display_name destination
                          @ ''):'')], Inr ()) (\<lambda>_.
         bind_io (delta_report delta) (\<lambda>_.
         bind_io (input ''Enter 'yes' to proceed: '' stdin) (\<lambda>confirm.
           if strip (lower confirm) \<noteq> ''yes'' then ([Print ''Aborting!''], Inr ())
           else
             bind_io (apply_delta az destination delta) (\<lambda>_.
               ([Print (''Provider registration edits complete. Providers may take minutes ''
                        @ ''or longer to register, monitor progress through the Azure console.'')],
                Inr ()))))))))"

definition main :: "azure \<Rightarrow> string \<Rightarrow> string \<Rightarrow> string option \<Rightarrow> string option \<Rightarrow> unit io" where
  "main az source_subscription_id destination_subscription_id strategy_name stdin =
     (if source_subscription_id = destination_subscription_id then
        ([], Inl (RuntimeError ''Subscription ID for source and destination must not match!''))
      else if \<not> subscription_id_valid source_subscription_id then
        ([], Inl (RuntimeError ''Source subscription ID doesn't appear to be a valid UUID.''))
      else if \<not> subscription_id_valid destination_subscription_id then
        ([], Inl (RuntimeError ''Destination subscription ID doesn't appear to be a valid UUID.''))
      else
        bind_io
          ([], case strategy_name of
                 None \<Rightarrow> Inr DEFAULT_REPLICATION_STRATEGY
               | Some name \<Rightarrow> ReplicationStrategy_call name) (\<lambda>strategy.
        bind_io (get_subscription az source_subscription_id) (\<lambda>source_subscription.
        bind_io (get_subscription az destination_subscription_id) (\<lambda>destination_subscription.
          replicate_registrations az source_subscription destination_subscription
            (strategy_value strategy) stdin))))"

section \<open>Notions used in the properties\<close>

text \<open>What a run of the Echo loop leaves in the delta, from any starting delta.\<close>

definition echo_result ::
  "Registrations \<Rightarrow> Registrations \<Rightarrow> Registrations \<Rightarrow> string \<Rightarrow> bool option" where
  "echo_result items D acc ns =
     (if (ns, True) \<in> set items \<and> map_of D ns = Some False then Some True else map_of acc ns)"

text \<open>
  The same for the Sync loop, when the items visited are items of a source dict: its
  keys are distinct, so the second read \<open>source_registrations[provider]\<close> finds the
  value \<open>enabled\<close> of the item.
\<close>

definition sync_result ::
  "Registrations \<Rightarrow> Registrations \<Rightarrow> Registrations \<Rightarrow> Registrations \<Rightarrow> string \<Rightarrow> bool option" where
  "sync_result items S D acc ns =
     (if ns \<in> fst ` set items \<and> map_of D ns \<noteq> None \<and> map_of S ns \<noteq> map_of D ns
      then map_of S ns else map_of acc ns)"

text \<open>
  A destination snapshot after a delta has taken effect: every entry of the delta is
  written into it, the other keys stay (\<open>dict.update\<close>).
\<close>

definition updated_with :: "Registrations \<Rightarrow> Registrations \<Rightarrow> Registrations" where
  "updated_with d delta = fold (\<lambda>kv d'. setitem d' (fst kv) (snd kv)) delta d"

text \<open>
  Two snapshots to run the program on: a provider to register, one that agrees, one
  the destination does not know and one the source has unregistered.
\<close>

definition scenario_source :: Registrations where
  "scenario_source =
     [(''Microsoft.Compute'', True), (''Microsoft.Storage'', False), (''Microsoft.Cdn'', True),
      (''Microsoft.Web'', False)]"

definition scenario_destination :: Registrations where
  "scenario_destination =
     [(''Microsoft.Compute'', False), (''Microsoft.Storage'', False), (''Microsoft.Web'', True)]"

text \<open>
  What a run has done when it waits for the operator's answer: both snapshots read,
  the heading and the report printed, the prompt written.
\<close>

definition shown :: "Subscription \<Rightarrow> Subscription \<Rightarrow> Registrations \<Rightarrow> event list" where
  "shown source destination delta =
     [Providers_list (subscription_id source), Providers_list (subscription_id destination),
      Print (''The following changes will be made to subscription ''
             @ subscription_id destination @ '' ('' @ display_name destination @ ''):'')]
     @ fst (delta_report delta)
     @ [Input ''Enter 'yes' to proceed: '']"

text \<open>
  The textual form of a UUID: 32 hexadecimal digits in groups of 8, 4, 4, 4 and 12
  with hyphens between them. In a version 4 UUID the first digit of the third group
  is 4 and the first digit of the fourth group is 8, 9, a or b (in either case).
\<close>

definition hex_digit :: "char \<Rightarrow> bool" where
  "hex_digit c = (c \<in> set ''0123456789abcdefABCDEF'')"

datatype shape = Hex | Hyphen | Other

definition char_shape :: "char \<Rightarrow> shape" where
  "char_shape c = (if hex_digit c then Hex else if c = CHR ''-'' then Hyphen else Other)"

definition uuid_formatted :: "string \<Rightarrow> bool" where
  "uuid_formatted s =
     (map char_shape s =
        replicate 8 Hex @ [Hyphen] @ replicate 4 Hex @ [Hyphen] @ replicate 4 Hex @ [Hyphen]
        @ replicate 4 Hex @ [Hyphen] @ replicate 12 Hex)"

definition uuid4_formatted :: "string \<Rightarrow> bool" where
  "uuid4_formatted s = (uuid_formatted s \<and> s ! 14 = CHR ''4'' \<and> s ! 19 \<in> set ''89abAB'')"

text \<open>The calls that change a subscription.\<close>

fun is_registration_call :: "event \<Rightarrow> bool" where
  "is_registration_call (Providers_register sid ns) = True"
| "is_registration_call (Providers_unregister sid ns) = True"
| "is_registration_call (Subscriptions_get sid) = False"
| "is_registration_call (Providers_list sid) = False"
| "is_registration_call (Print line) = False"
| "is_registration_call (Input prompt) = False"

text \<open>
  An Azure account to run the program on: a source subscription, a destination
  subscription whose providers are those of \<open>scenario_destination\<close>, and a third
  subscription that already mirrors the source. Every call to register or unregister
  succeeds.
\<close>

definition source_id :: string where
  "source_id = ''11111111-1111-4111-8111-111111111111''"

definition destination_id :: string where
  "destination_id = ''22222222-2222-4222-9222-222222222222''"

definition mirror_id :: string where
  "mirror_id = ''33333333-3333-4333-a333-333333333333''"

definition source_providers :: "Provider list" where
  "source_providers =
     [\<lparr>namespace = ''Microsoft.Compute'', registration_state = ''Registered''\<rparr>,
      \<lparr>namespace = ''Microsoft.Storage'', registration_state = ''NotRegistered''\<rparr>,
      \<lparr>namespace = ''Microsoft.Cdn'', registration_state = ''Registered''\<rparr>,
      \<lparr>namespace = ''Microsoft.Web'', registration_state = ''Unregistering''\<rparr>]"

definition destination_providers :: "Provider list" where
  "destination_providers =
     [\<lparr>namespace = ''Microsoft.Compute'', registration_state = ''Registering''\<rparr>,
      \<lparr>namespace = ''Microsoft.Storage'', registration_state = ''NotRegistered''\<rparr>,
      \<lparr>namespace = ''Microsoft.Web'', registration_state = ''Registered''\<rparr>]"

definition scenario_azure :: azure where
  "scenario_azure =
     \<lparr>subscriptions_get =
        (\<lambda>sid. if sid = source_id then Inr \<lparr>subscription_id = sid, display_name = ''Source''\<rparr>
               else if sid = destination_id
               then Inr \<lparr>subscription_id = sid, display_name = ''Destination''\<rparr>
               else if sid = mirror_id
               then Inr \<lparr>subscription_id = sid, display_name = ''Mirror''\<rparr>
               else Inl (ServiceError ''SubscriptionNotFound'')),
      providers_list =
        (\<lambda>sid. if sid = source_id \<or> sid = mirror_id then Inr source_providers
               else if sid = destination_id then Inr destination_providers
               else Inl (ServiceError ''SubscriptionNotFound'')),
      providers_register = (\<lambda>sid ns. None),
      providers_unregister = (\<lambda>sid ns. None)\<rparr>"

definition source_subscription :: Subscription where
  "source_subscription = \<lparr>subscription_id = source_id, display_name = ''Source''\<rparr>"

definition destination_subscription :: Subscription where
  "destination_subscription =
     \<lparr>subscription_id = destination_id, display_name = ''Destination''\<rparr>"

definition mirror_subscription :: Subscription where
  "mirror_subscription = \<lparr>subscription_id = mirror_id, display_name = ''Mirror''\<rparr>"

section \<open>Properties of the strategy evaluator\<close>

subsection \<open>Dict operations\<close>

lemma contains_iff: "contains d k \<longleftrightarrow> map_of d k \<noteq> None"
  by (simp add: contains_def map_of_eq_None_iff)

lemma map_of_setitem: "map_of (setitem d k v) = (map_of d)(k \<mapsto> v)"
  by (simp add: setitem_def update_conv')

lemma distinct_setitem: "distinct (map fst d) \<Longrightarrow> distinct (map fst (setitem d k v))"
  by (simp add: setitem_def distinct_update)

subsection \<open>The two loops\<close>

lemma echo_loop_returns:
  "\<exists>delta. echo_loop items D acc = Inr delta
     \<and> map_of delta = echo_result items D acc
     \<and> (distinct (map fst acc) \<longrightarrow> distinct (map fst delta))"
proof (induction items arbitrary: acc)
  case Nil
  show ?case by (simp add: echo_result_def fun_eq_iff)
next
  case (Cons item items)
  obtain provider enabled where item: "item = (provider, enabled)"
    by (cases item)
  show ?case
  proof (cases "enabled \<and> map_of D provider = Some False")
    case True
    from Cons.IH [of "setitem acc provider True"]
    obtain delta where d: "echo_loop items D (setitem acc provider True) = Inr delta"
      "map_of delta = echo_result items D (setitem acc provider True)"
      "distinct (map fst (setitem acc provider True)) \<longrightarrow> distinct (map fst delta)"
      by blast
    have run: "echo_loop (item # items) D acc = Inr delta"
      using True d(1) by (simp add: item contains_iff getitem_def)
    have "echo_result items D (setitem acc provider True) = echo_result (item # items) D acc"
      using True by (auto simp: echo_result_def fun_eq_iff item map_of_setitem)
    with run d(2,3) show ?thesis
      by (auto simp: distinct_setitem)
  next
    case False
    from Cons.IH [of acc]
    obtain delta where d: "echo_loop items D acc = Inr delta"
      "map_of delta = echo_result items D acc"
      "distinct (map fst acc) \<longrightarrow> distinct (map fst delta)"
      by blast
    have run: "echo_loop (item # items) D acc = Inr delta"
      using False d(1)
      by (cases "map_of D provider") (auto simp: item contains_iff getitem_def)
    have "echo_result items D acc = echo_result (item # items) D acc"
      using False by (auto simp: echo_result_def fun_eq_iff item)
    with run d(2,3) show ?thesis
      by auto
  qed
qed

lemma sync_loop_returns:
  assumes "distinct (map fst S)" and "set items \<subseteq> set S"
  shows "\<exists>delta. sync_loop items S D acc = Inr delta
     \<and> map_of delta = sync_result items S D acc
     \<and> (distinct (map fst acc) \<longrightarrow> distinct (map fst delta))"
  using assms(2)
proof (induction items arbitrary: acc)
  case Nil
  show ?case by (simp add: sync_result_def fun_eq_iff)
next
  case (Cons item items)
  obtain provider enabled where item: "item = (provider, enabled)"
    by (cases item)
  have src: "map_of S provider = Some enabled"
    using Cons.prems assms(1) by (simp add: item)
  have sub: "set items \<subseteq> set S"
    using Cons.prems by simp
  show ?case
  proof (cases "map_of D provider")
    case None
    from Cons.IH [OF sub, of acc]
    obtain delta where d: "sync_loop items S D acc = Inr delta"
      "map_of delta = sync_result items S D acc"
      "distinct (map fst acc) \<longrightarrow> distinct (map fst delta)"
      by blast
    have run: "sync_loop (item # items) S D acc = Inr delta"
      using None d(1) by (simp add: item contains_iff)
    have "sync_result items S D acc = sync_result (item # items) S D acc"
      using None by (auto simp: sync_result_def fun_eq_iff item)
    with run d(2,3) show ?thesis
      by auto
  next
    case (Some dv)
    show ?thesis
    proof (cases "enabled = dv")
      case True
      from Cons.IH [OF sub, of acc]
      obtain delta where d: "sync_loop items S D acc = Inr delta"
        "map_of delta = sync_result items S D acc"
        "distinct (map fst acc) \<longrightarrow> distinct (map fst delta)"
        by blast
      have run: "sync_loop (item # items) S D acc = Inr delta"
        using True Some src d(1) by (simp add: item contains_iff getitem_def)
      have "sync_result items S D acc = sync_result (item # items) S D acc"
        using True Some src by (auto simp: sync_result_def fun_eq_iff item)
      with run d(2,3) show ?thesis
        by auto
    next
      case False
      from Cons.IH [OF sub, of "setitem acc provider enabled"]
      obtain delta where d: "sync_loop items S D (setitem acc provider enabled) = Inr delta"
        "map_of delta = sync_result items S D (setitem acc provider enabled)"
        "distinct (map fst (setitem acc provider enabled)) \<longrightarrow> distinct (map fst delta)"
        by blast
      have run: "sync_loop (item # items) S D acc = Inr delta"
        using False Some src d(1) by (simp add: item contains_iff getitem_def)
      have "sync_result items S D (setitem acc provider enabled)
              = sync_result (item # items) S D acc"
        using False Some src
        by (auto simp: sync_result_def fun_eq_iff item map_of_setitem)
      with run d(2,3) show ?thesis
        by (auto simp: distinct_setitem)
    qed
  qed
qed

lemma sync_loop_total:
  "set items \<subseteq> set S \<Longrightarrow> \<exists>delta. sync_loop items S D acc = Inr delta"
proof (induction items arbitrary: acc)
  case Nil
  show ?case by simp
next
  case (Cons item items)
  obtain provider enabled where item: "item = (provider, enabled)"
    by (cases item)
  from Cons.prems have "provider \<in> fst ` set S"
    by (force simp: item)
  then obtain s where s: "map_of S provider = Some s"
    by (cases "map_of S provider") (auto simp: map_of_eq_None_iff)
  from Cons.prems have sub: "set items \<subseteq> set S"
    by simp
  show ?case
    using Cons.IH [OF sub] s
    by (cases "map_of D provider") (auto simp: item contains_iff getitem_def)
qed

subsection \<open>The evaluator under each strategy\<close>

lemma echo_delta:
  "\<exists>delta. generate_registration_delta S D (strategy_value ECHO) = Inr delta
     \<and> map_of delta = echo_result S D [] \<and> distinct (map fst delta)"
  using echo_loop_returns [of S D "[]"] by (simp add: generate_registration_delta_def)

lemma sync_delta:
  assumes "distinct (map fst S)"
  shows "\<exists>delta. generate_registration_delta S D (strategy_value SYNC) = Inr delta
     \<and> map_of delta = sync_result S S D [] \<and> distinct (map fst delta)"
  using sync_loop_returns [OF assms subset_refl, of D "[]"]
  by (simp add: generate_registration_delta_def)

lemma echo_result_dict:
  "distinct (map fst S) \<Longrightarrow>
   echo_result S D [] ns =
     (if map_of S ns = Some True \<and> map_of D ns = Some False then Some True else None)"
  by (simp add: echo_result_def)

lemma sync_result_dict:
  "sync_result S S D [] ns =
     (if map_of S ns \<noteq> None \<and> map_of D ns \<noteq> None \<and> map_of S ns \<noteq> map_of D ns
      then map_of S ns else None)"
  by (auto simp: sync_result_def map_of_eq_None_iff)

lemma scenario_source_dict: "distinct (map fst scenario_source)"
  by (simp add: scenario_source_def)

lemma scenario_echo:
  "generate_registration_delta scenario_source scenario_destination (strategy_value ECHO)
     = Inr [(''Microsoft.Compute'', True)]"
  by (simp add: generate_registration_delta_def scenario_source_def scenario_destination_def
      contains_def getitem_def setitem_def)

lemma scenario_sync:
  "generate_registration_delta scenario_source scenario_destination (strategy_value SYNC)
     = Inr [(''Microsoft.Compute'', True), (''Microsoft.Web'', False)]"
  by (simp add: generate_registration_delta_def scenario_source_def scenario_destination_def
      contains_def getitem_def setitem_def)

text \<open>
  Claim C1. For all snapshots \<open>S\<close> and \<open>D\<close>, the evaluator with strategy Echo returns
  a delta whose entries are exactly the namespaces present in both snapshots with
  \<open>S[ns]\<close> true and \<open>D[ns]\<close> false, each mapped to true; no other namespace is in it.
\<close>

theorem echo_delta_exact:
  assumes "distinct (map fst S)"
  shows "\<exists>delta. generate_registration_delta S D (strategy_value ECHO) = Inr delta
     \<and> distinct (map fst delta)
     \<and> (\<forall>ns. map_of delta ns =
           (if map_of S ns = Some True \<and> map_of D ns = Some False then Some True else None))"
  using echo_delta [of S D] echo_result_dict [OF assms] by auto

theorem echo_delta_exact_witness:
  "distinct (map fst scenario_source)
   \<and> (\<exists>delta. generate_registration_delta scenario_source scenario_destination
                 (strategy_value ECHO) = Inr delta
        \<and> distinct (map fst delta)
        \<and> map_of delta ''Microsoft.Compute'' = Some True
        \<and> map_of delta ''Microsoft.Storage'' = None
        \<and> map_of delta ''Microsoft.Cdn'' = None
        \<and> map_of delta ''Microsoft.Web'' = None)"
proof -
  from echo_delta_exact [OF scenario_source_dict, of scenario_destination]
  obtain delta where
    "generate_registration_delta scenario_source scenario_destination (strategy_value ECHO)
       = Inr delta"
    "distinct (map fst delta)"
    "\<forall>ns. map_of delta ns =
       (if map_of scenario_source ns = Some True \<and> map_of scenario_destination ns = Some False
        then Some True else None)"
    by blast
  then show ?thesis
    using scenario_source_dict by (simp add: scenario_source_def scenario_destination_def)
qed

text \<open>
  Claim C2. For all snapshots \<open>S\<close> and \<open>D\<close>, the evaluator with strategy Sync returns
  a delta whose keys are exactly the namespaces present in both snapshots with
  \<open>S[ns] != D[ns]\<close>, and every entry maps its namespace to \<open>S[ns]\<close>.
\<close>

theorem sync_delta_exact:
  assumes "distinct (map fst S)"
  shows "\<exists>delta. generate_registration_delta S D (strategy_value SYNC) = Inr delta
     \<and> distinct (map fst delta)
     \<and> dom (map_of delta) = {ns \<in> dom (map_of S) \<inter> dom (map_of D). map_of S ns \<noteq> map_of D ns}
     \<and> (\<forall>ns \<in> dom (map_of delta). map_of delta ns = map_of S ns)"
proof -
  from sync_delta [OF assms, of D]
  obtain delta where d: "generate_registration_delta S D (strategy_value SYNC) = Inr delta"
    "map_of delta = sync_result S S D []" "distinct (map fst delta)"
    by blast
  have "dom (map_of delta) = {ns \<in> dom (map_of S) \<inter> dom (map_of D). map_of S ns \<noteq> map_of D ns}"
    by (auto simp: d(2) sync_result_dict dom_def)
  moreover have "\<forall>ns \<in> dom (map_of delta). map_of delta ns = map_of S ns"
    by (auto simp: d(2) sync_result_dict dom_def)
  ultimately show ?thesis
    using d(1,3) by blast
qed

theorem sync_delta_exact_witness:
  "distinct (map fst scenario_source)
   \<and> generate_registration_delta scenario_source scenario_destination (strategy_value SYNC)
       = Inr [(''Microsoft.Compute'', True), (''Microsoft.Web'', False)]
   \<and> {ns \<in> dom (map_of scenario_source) \<inter> dom (map_of scenario_destination).
         map_of scenario_source ns \<noteq> map_of scenario_destination ns}
       = {''Microsoft.Compute'', ''Microsoft.Web''}
   \<and> map_of scenario_source ''Microsoft.Compute'' = Some True
   \<and> map_of scenario_source ''Microsoft.Web'' = Some False"
proof -
  from sync_delta_exact [OF scenario_source_dict, of scenario_destination]
  obtain delta where d:
    "generate_registration_delta scenario_source scenario_destination (strategy_value SYNC)
       = Inr delta"
    "dom (map_of delta) =
       {ns \<in> dom (map_of scenario_source) \<inter> dom (map_of scenario_destination).
          map_of scenario_source ns \<noteq> map_of scenario_destination ns}"
    "\<forall>ns \<in> dom (map_of delta). map_of delta ns = map_of scenario_source ns"
    by blast
  from d(1) scenario_sync
  have delta: "delta = [(''Microsoft.Compute'', True), (''Microsoft.Web'', False)]"
    by simp
  have keys: "dom (map_of delta) = {''Microsoft.Compute'', ''Microsoft.Web''}"
    by (auto simp: delta)
  from d(3) have "map_of delta ''Microsoft.Compute'' = map_of scenario_source ''Microsoft.Compute''"
    and "map_of delta ''Microsoft.Web'' = map_of scenario_source ''Microsoft.Web''"
    by (simp_all add: keys)
  then have "map_of scenario_source ''Microsoft.Compute'' = Some True"
    and "map_of scenario_source ''Microsoft.Web'' = Some False"
    by (simp_all add: delta)
  with d(2) keys scenario_sync scenario_source_dict show ?thesis
    by simp
qed

text \<open>
  Claim C3. For all snapshots \<open>S\<close> and \<open>D\<close> and either strategy, the delta the
  evaluator returns has no namespace whose desired value equals the value \<open>D\<close> has
  for it, and under Echo every value in the delta is true.
\<close>

theorem delta_never_noop:
  assumes "distinct (map fst S)"
  shows "\<exists>delta. generate_registration_delta S D (strategy_value strategy) = Inr delta
     \<and> (\<forall>(ns, v) \<in> set delta. map_of D ns \<noteq> Some v)
     \<and> (strategy = ECHO \<longrightarrow> (\<forall>(ns, v) \<in> set delta. v = True))"
proof (cases strategy)
  case ECHO
  from echo_delta [of S D]
  obtain delta where d: "generate_registration_delta S D (strategy_value ECHO) = Inr delta"
    "map_of delta = echo_result S D []" "distinct (map fst delta)"
    by blast
  have "map_of D ns \<noteq> Some v \<and> v = True" if "(ns, v) \<in> set delta" for ns v
  proof -
    from that d(3) have "map_of delta ns = Some v" by simp
    then show ?thesis
      by (auto simp: d(2) echo_result_def split: if_splits)
  qed
  with d(1) ECHO show ?thesis by auto
next
  case SYNC
  from sync_delta [OF assms, of D]
  obtain delta where d: "generate_registration_delta S D (strategy_value SYNC) = Inr delta"
    "map_of delta = sync_result S S D []" "distinct (map fst delta)"
    by blast
  have "map_of D ns \<noteq> Some v" if "(ns, v) \<in> set delta" for ns v
  proof -
    from that d(3) have "map_of delta ns = Some v" by simp
    then show ?thesis
      by (auto simp: d(2) sync_result_dict split: if_splits)
  qed
  with d(1) SYNC show ?thesis by auto
qed

theorem delta_never_noop_witness:
  "distinct (map fst scenario_source)
   \<and> generate_registration_delta scenario_source scenario_destination (strategy_value ECHO)
       = Inr [(''Microsoft.Compute'', True)]
   \<and> map_of scenario_destination ''Microsoft.Compute'' \<noteq> Some True"
proof -
  from delta_never_noop [OF scenario_source_dict, of scenario_destination ECHO]
  obtain delta where d:
    "generate_registration_delta scenario_source scenario_destination (strategy_value ECHO)
       = Inr delta"
    "\<forall>(ns, v) \<in> set delta. map_of scenario_destination ns \<noteq> Some v"
    by blast
  from d(1) scenario_echo have "delta = [(''Microsoft.Compute'', True)]"
    by simp
  with d(2) have "map_of scenario_destination ''Microsoft.Compute'' \<noteq> Some True"
    by simp
  with scenario_echo scenario_source_dict show ?thesis
    by simp
qed

subsection \<open>Evaluating again after the delta has been applied\<close>

lemma map_of_updated_with:
  "distinct (map fst delta) \<Longrightarrow>
   map_of (updated_with d delta) ns =
     (case map_of delta ns of None \<Rightarrow> map_of d ns | Some v \<Rightarrow> Some v)"
proof (induction delta arbitrary: d)
  case Nil
  show ?case by (simp add: updated_with_def)
next
  case (Cons kv delta)
  obtain k v where kv: "kv = (k, v)"
    by (cases kv)
  from Cons.prems have fresh: "map_of delta k = None" and rest: "distinct (map fst delta)"
    by (auto simp: kv map_of_eq_None_iff)
  have "updated_with d (kv # delta) = updated_with (setitem d k v) delta"
    by (simp add: updated_with_def kv)
  then show ?case
    using Cons.IH [OF rest, of "setitem d k v"] fresh
    by (auto simp: kv map_of_setitem split: option.splits)
qed

lemma map_of_empty_Nil: "map_of xs = Map.empty \<Longrightarrow> xs = []"
  by (simp add: map_of_eq_empty_iff)

text \<open>
  Claim C4. For all snapshots \<open>S\<close> and \<open>D\<close> and either strategy: when \<open>delta\<close> is the
  result of the evaluator on \<open>S\<close> and \<open>D\<close>, and \<open>D'\<close> is \<open>D\<close> with \<open>D'[ns] = delta[ns]\<close>
  for every namespace of the delta and the other keys unchanged, the evaluator on
  \<open>S\<close> and \<open>D'\<close> with the same strategy returns the empty delta.
\<close>

theorem reevaluation_is_empty:
  assumes "distinct (map fst S)"
    and "generate_registration_delta S D (strategy_value strategy) = Inr delta"
    and "\<forall>ns. map_of D' ns = (case map_of delta ns of None \<Rightarrow> map_of D ns | Some v \<Rightarrow> Some v)"
  shows "generate_registration_delta S D' (strategy_value strategy) = Inr []"
proof (cases strategy)
  case ECHO
  from echo_delta [of S D] assms(2) ECHO
  have delta: "map_of delta = echo_result S D []"
    by auto
  from echo_delta [of S D']
  obtain delta' where d': "generate_registration_delta S D' (strategy_value ECHO) = Inr delta'"
    "map_of delta' = echo_result S D' []"
    by blast
  have "echo_result S D' [] ns = None" for ns
    using assms(3) [rule_format, of ns]
    by (auto simp: delta echo_result_def split: if_splits option.splits)
  then have "map_of delta' = Map.empty"
    by (simp add: d'(2) fun_eq_iff)
  with d'(1) ECHO show ?thesis
    by (simp add: map_of_empty_Nil)
next
  case SYNC
  from sync_delta [OF assms(1), of D] assms(2) SYNC
  have delta: "map_of delta = sync_result S S D []"
    by auto
  from sync_delta [OF assms(1), of D']
  obtain delta' where d': "generate_registration_delta S D' (strategy_value SYNC) = Inr delta'"
    "map_of delta' = sync_result S S D' []"
    by blast
  have "sync_result S S D' [] ns = None" for ns
    using assms(3) [rule_format, of ns]
    by (auto simp: delta sync_result_dict split: if_splits option.splits)
  then have "map_of delta' = Map.empty"
    by (simp add: d'(2) fun_eq_iff)
  with d'(1) SYNC show ?thesis
    by (simp add: map_of_empty_Nil)
qed

theorem reevaluation_is_empty_witness:
  "distinct (map fst scenario_source)
   \<and> generate_registration_delta scenario_source scenario_destination (strategy_value SYNC)
       = Inr [(''Microsoft.Compute'', True), (''Microsoft.Web'', False)]
   \<and> updated_with scenario_destination [(''Microsoft.Compute'', True), (''Microsoft.Web'', False)]
       = [(''Microsoft.Compute'', True), (''Microsoft.Storage'', False), (''Microsoft.Web'', False)]
   \<and> generate_registration_delta scenario_source
        (updated_with scenario_destination
           [(''Microsoft.Compute'', True), (''Microsoft.Web'', False)])
        (strategy_value SYNC) = Inr []"
proof -
  have upd: "updated_with scenario_destination
               [(''Microsoft.Compute'', True), (''Microsoft.Web'', False)]
             = [(''Microsoft.Compute'', True), (''Microsoft.Storage'', False),
                (''Microsoft.Web'', False)]"
    by (simp add: updated_with_def scenario_destination_def setitem_def)
  from reevaluation_is_empty [OF scenario_source_dict scenario_sync, of
      "updated_with scenario_destination [(''Microsoft.Compute'', True), (''Microsoft.Web'', False)]"]
    map_of_updated_with [of "[(''Microsoft.Compute'', True), (''Microsoft.Web'', False)]"
      scenario_destination]
  have "generate_registration_delta scenario_source
        (updated_with scenario_destination
           [(''Microsoft.Compute'', True), (''Microsoft.Web'', False)])
        (strategy_value SYNC) = Inr []"
    by simp
  with scenario_sync upd scenario_source_dict show ?thesis
    by blast
qed

text \<open>
  Claim C10. For all snapshots and every member of \<open>ReplicationStrategy\<close>, the
  evaluator returns a delta: neither the unsupported-strategy branch nor a failing
  dict lookup is reached. This holds for lists with repeated keys as well.
\<close>

theorem strategy_member_never_raises:
  "\<exists>delta. generate_registration_delta S D (strategy_value strategy) = Inr delta"
proof (cases strategy)
  case ECHO
  then show ?thesis using echo_delta [of S D] by auto
next
  case SYNC
  then show ?thesis
    using sync_loop_total [of S S D "[]"] by (simp add: generate_registration_delta_def)
qed

section \<open>Properties of the report\<close>

lemma last_sorted_is_Max:
  "sorted (map f xs) \<Longrightarrow> xs \<noteq> [] \<Longrightarrow> f (last xs) = Max (f ` set xs)"
proof (induction xs rule: rev_induct)
  case Nil
  then show ?case by simp
next
  case (snoc x xs)
  from snoc.prems(1) have "\<forall>y \<in> set xs. f y \<le> f x"
    by (auto simp: sorted_append)
  then have "Max (insert (f x) (f ` set xs)) = f x"
    by (intro Max_eqI) auto
  then show ?case by simp
qed

lemma hd_sorted_by_len_reverse:
  assumes "ks \<noteq> []"
  shows "sorted_by_len_reverse ks \<noteq> []"
    and "length (hd (sorted_by_len_reverse ks)) = Max (length ` set ks)"
proof -
  let ?xs = "sort_key length (rev ks)"
  have ne: "?xs \<noteq> []"
    using assms by (metis length_sort length_rev length_0_conv)
  then show "sorted_by_len_reverse ks \<noteq> []"
    by (simp add: sorted_by_len_reverse_def)
  have "length (last ?xs) = Max (length ` set ?xs)"
    using ne by (intro last_sorted_is_Max) simp_all
  then show "length (hd (sorted_by_len_reverse ks)) = Max (length ` set ks)"
    by (simp add: sorted_by_len_reverse_def hd_rev)
qed

lemma namespace_width_nonempty:
  assumes "delta \<noteq> []"
  shows "namespace_width delta = Inr (Max (length ` fst ` set delta) + 5)"
proof -
  have ne: "map fst delta \<noteq> []"
    using assms by simp
  from hd_sorted_by_len_reverse [OF ne]
  obtain k ks where "sorted_by_len_reverse (map fst delta) = k # ks"
    and "length k = Max (length ` set (map fst delta))"
    by (cases "sorted_by_len_reverse (map fst delta)") auto
  then show ?thesis
    by (simp add: namespace_width_def)
qed

lemma delta_report_nonempty:
  assumes "delta \<noteq> []"
  shows "delta_report delta =
     (map (\<lambda>kv. Print (report_line (Max (length ` fst ` set delta) + 5) kv)) delta, Inr ())"
  by (simp add: delta_report_def namespace_width_nonempty [OF assms])

text \<open>
  Claim C9. \<open>delta_report\<close> needs a delta with an entry: on the empty delta it
  raises \<open>IndexError\<close>, from element 0 of the sorted list of keys, and prints nothing;
  on every other delta it prints one line for each entry, in the order of the delta,
  with the namespace left-justified to the length of the longest key plus 5.
\<close>

theorem delta_report_needs_entries:
  "delta_report [] = ([], Inl IndexError)
   \<and> (delta \<noteq> [] \<longrightarrow>
        delta_report delta =
          (map (\<lambda>kv. Print (ljust (fst kv) (Max (length ` fst ` set delta) + 5) @ '' => ''
                             @ (if snd kv then ''Register'' else ''Unregister'')))
             delta,
           Inr ()))"
  by (simp add: delta_report_nonempty report_line_def)
     (simp add: delta_report_def namespace_width_def sorted_by_len_reverse_def)

theorem delta_report_needs_entries_witness:
  "delta_report [] = ([], Inl IndexError)
   \<and> delta_report [(''Microsoft.Compute'', True), (''Microsoft.Web'', False)] =
       ([Print ''Microsoft.Compute      => Register'',
         Print ''Microsoft.Web          => Unregister''], Inr ())"
proof -
  have "Max (length ` fst ` set [(''Microsoft.Compute'', True), (''Microsoft.Web'', False)]) = 17"
    by simp
  moreover have "replicate 5 CHR '' '' = ''     ''" and "replicate 9 CHR '' '' = ''         ''"
    by (simp_all add: eval_nat_numeral)
  ultimately show ?thesis
    using delta_report_needs_entries
      [of "[(''Microsoft.Compute'', True), (''Microsoft.Web'', False)]"]
    by (simp add: ljust_def)
qed

section \<open>Properties of the orchestrator\<close>

lemma bind_io_Inr [simp]: "bind_io (t, Inr x) f = (t @ fst (f x), snd (f x))"
  by (simp add: bind_io_def split: prod.splits)

lemma bind_io_Inl [simp]: "bind_io (t, Inl e) f = (t, Inl e)"
  by (simp add: bind_io_def)

lemma fetch_trace:
  assumes "get_subscription_registrations az subscription = (t, Inr regs)"
  shows "t = [Providers_list (subscription_id subscription)]"
  using assms
  by (cases "providers_list az (subscription_id subscription)")
     (auto simp: get_subscription_registrations_def)

text \<open>
  Claim C8. In every run of \<open>replicate_registrations\<close> in which the evaluator
  returns the empty delta, the run ends normally after the line that no delta was
  found: apart from reading the two snapshots it prints no report, writes no prompt
  and makes no call to register or unregister.
\<close>

theorem empty_delta_ends_run:
  assumes "get_subscription_registrations az source = (t1, Inr S)"
    and "get_subscription_registrations az destination = (t2, Inr D)"
    and "generate_registration_delta S D strategy = Inr []"
  shows "replicate_registrations az source destination strategy stdin =
     ([Providers_list (subscription_id source), Providers_list (subscription_id destination),
       Print ''No delta found between subscriptions.''], Inr ())"
  using assms fetch_trace [OF assms(1)] fetch_trace [OF assms(2)]
  by (simp add: replicate_registrations_def)

lemma scenario_fetch_source:
  "get_subscription_registrations scenario_azure source_subscription
     = ([Providers_list source_id], Inr scenario_source)"
  by (simp add: get_subscription_registrations_def scenario_azure_def source_subscription_def
      source_providers_def scenario_source_def setitem_def)

lemma scenario_fetch_destination:
  "get_subscription_registrations scenario_azure destination_subscription
     = ([Providers_list destination_id], Inr scenario_destination)"
  by (simp add: get_subscription_registrations_def scenario_azure_def
      destination_subscription_def destination_providers_def scenario_destination_def
      setitem_def source_id_def destination_id_def mirror_id_def)

lemma scenario_fetch_mirror:
  "get_subscription_registrations scenario_azure mirror_subscription
     = ([Providers_list mirror_id], Inr scenario_source)"
  by (simp add: get_subscription_registrations_def scenario_azure_def mirror_subscription_def
      source_providers_def scenario_source_def setitem_def)

theorem empty_delta_ends_run_witness:
  "generate_registration_delta scenario_source scenario_source (strategy_value SYNC) = Inr []
   \<and> replicate_registrations scenario_azure source_subscription mirror_subscription
        (strategy_value SYNC) (Some ''yes'') =
       ([Providers_list source_id, Providers_list mirror_id,
         Print ''No delta found between subscriptions.''], Inr ())"
proof -
  have none: "generate_registration_delta scenario_source scenario_source (strategy_value SYNC)
                = Inr []"
    by (simp add: generate_registration_delta_def scenario_source_def contains_def getitem_def)
  from empty_delta_ends_run [OF scenario_fetch_source scenario_fetch_mirror none, of "Some ''yes''"]
    none
  show ?thesis
    by (simp add: source_subscription_def mirror_subscription_def)
qed

lemma apply_delta_calls:
  "delta \<noteq> [] \<Longrightarrow> filter is_registration_call (fst (apply_delta az subscription delta)) \<noteq> []"
proof (cases delta)
  case Nil
  then show "delta \<noteq> [] \<Longrightarrow> ?thesis" by simp
next
  case (Cons kv rest)
  obtain ns val where kv: "kv = (ns, val)"
    by (cases kv)
  show ?thesis
  proof (cases val)
    case True
    then show ?thesis
      by (cases "providers_register az (subscription_id subscription) ns")
         (simp_all add: Cons kv set_subscription_registration_def)
  next
    case False
    then show ?thesis
      by (cases "providers_unregister az (subscription_id subscription) ns")
         (simp_all add: Cons kv set_subscription_registration_def)
  qed
qed

lemma shown_no_calls:
  "delta \<noteq> [] \<Longrightarrow> filter is_registration_call (shown source destination delta) = []"
  by (simp add: shown_def delta_report_nonempty filter_empty_conv)

lemma run_to_confirm:
  assumes "get_subscription_registrations az source = (t1, Inr S)"
    and "get_subscription_registrations az destination = (t2, Inr D)"
    and "generate_registration_delta S D strategy = Inr delta"
    and "delta \<noteq> []"
  shows "replicate_registrations az source destination strategy (Some line) =
     (if strip (lower line) \<noteq> ''yes''
      then (shown source destination delta @ [Print ''Aborting!''], Inr ())
      else bind_io (shown source destination delta, Inr ())
             (\<lambda>_. bind_io (apply_delta az destination delta)
                (\<lambda>_. ([Print (''Provider registration edits complete. Providers may take minutes ''
                        @ ''or longer to register, monitor progress through the Azure console.'')],
                      Inr ()))))"
  using assms fetch_trace [OF assms(1)] fetch_trace [OF assms(2)]
  by (cases "apply_delta az destination delta")
     (simp add: replicate_registrations_def shown_def delta_report_nonempty input_def bind_io_def
        split: sum.splits)

text \<open>
  Claim C7. At the confirmation step the delta is applied only when the line the
  operator typed, in lower case and with the white space around it removed, is
  \<open>yes\<close>, and then at least one call to register or unregister is made. For every
  other line, the empty line too, the run prints that it aborts and ends normally
  and no call to register or unregister is made.
\<close>

theorem apply_only_on_yes:
  assumes "get_subscription_registrations az source = (t1, Inr S)"
    and "get_subscription_registrations az destination = (t2, Inr D)"
    and "generate_registration_delta S D strategy = Inr delta"
    and "delta \<noteq> []"
  shows "(strip (lower line) = ''yes'' \<longrightarrow>
            replicate_registrations az source destination strategy (Some line) =
              bind_io (shown source destination delta, Inr ())
                (\<lambda>_. bind_io (apply_delta az destination delta)
                   (\<lambda>_. ([Print (''Provider registration edits complete. Providers may take ''
                           @ ''minutes or longer to register, monitor progress through the ''
                           @ ''Azure console.'')], Inr ())))
          \<and> filter is_registration_call
               (fst (replicate_registrations az source destination strategy (Some line))) \<noteq> [])
       \<and> (strip (lower line) \<noteq> ''yes'' \<longrightarrow>
            replicate_registrations az source destination strategy (Some line) =
              (shown source destination delta @ [Print ''Aborting!''], Inr ())
          \<and> filter is_registration_call
               (fst (replicate_registrations az source destination strategy (Some line))) = [])"
proof (cases "strip (lower line) = ''yes''")
  case True
  have run: "replicate_registrations az source destination strategy (Some line) =
      bind_io (shown source destination delta, Inr ())
        (\<lambda>_. bind_io (apply_delta az destination delta)
           (\<lambda>_. ([Print (''Provider registration edits complete. Providers may take minutes ''
                   @ ''or longer to register, monitor progress through the Azure console.'')],
                 Inr ())))"
    using run_to_confirm [OF assms, of line] True by simp
  have "filter is_registration_call
          (fst (replicate_registrations az source destination strategy (Some line))) \<noteq> []"
    using apply_delta_calls [OF assms(4), of az destination]
    by (cases "apply_delta az destination delta")
       (auto simp: run bind_io_def split: sum.splits)
  with run True show ?thesis by simp
next
  case False
  with run_to_confirm [OF assms, of line] shown_no_calls [OF assms(4), of source destination]
  show ?thesis by simp
qed

lemma yes_variants:
  "strip (lower '' Yes '') = ''yes''" "strip (lower ''y'') \<noteq> ''yes''" "strip (lower '''') \<noteq> ''yes''"
  by code_simp+

lemma scenario_report:
  "delta_report [(''Microsoft.Compute'', True), (''Microsoft.Web'', False)] =
     ([Print ''Microsoft.Compute      => Register'',
       Print ''Microsoft.Web          => Unregister''], Inr ())"
proof -
  have "Max (length ` fst ` set [(''Microsoft.Compute'', True), (''Microsoft.Web'', False)]) = 17"
    by simp
  moreover have "replicate 5 CHR '' '' = ''     ''" and "replicate 9 CHR '' '' = ''         ''"
    by (simp_all add: eval_nat_numeral)
  ultimately show ?thesis
    by (simp add: delta_report_nonempty report_line_def ljust_def)
qed

theorem apply_only_on_yes_witness:
  "strip (lower '' Yes '') = ''yes''
   \<and> filter is_registration_call
       (fst (replicate_registrations scenario_azure source_subscription destination_subscription
              (strategy_value SYNC) (Some '' Yes '')))
     = [Providers_register destination_id ''Microsoft.Compute'',
        Providers_unregister destination_id ''Microsoft.Web'']
   \<and> strip (lower '''') \<noteq> ''yes''
   \<and> replicate_registrations scenario_azure source_subscription destination_subscription
        (strategy_value SYNC) (Some '''')
     = ([Providers_list source_id, Providers_list destination_id,
         Print (''The following changes will be made to subscription '' @ destination_id
                @ '' (Destination):''),
         Print ''Microsoft.Compute      => Register'',
         Print ''Microsoft.Web          => Unregister'',
         Input ''Enter 'yes' to proceed: '',
         Print ''Aborting!''], Inr ())"
proof -
  note inst = apply_only_on_yes [OF scenario_fetch_source scenario_fetch_destination
      scenario_sync]
  have ne: "[(''Microsoft.Compute'', True), (''Microsoft.Web'', False)] \<noteq> []"
    by simp
  have sh: "shown source_subscription destination_subscription
              [(''Microsoft.Compute'', True), (''Microsoft.Web'', False)]
            = [Providers_list source_id, Providers_list destination_id,
               Print (''The following changes will be made to subscription '' @ destination_id
                      @ '' (Destination):''),
               Print ''Microsoft.Compute      => Register'',
               Print ''Microsoft.Web          => Unregister'',
               Input ''Enter 'yes' to proceed: '']"
    by (simp add: shown_def scenario_report source_subscription_def destination_subscription_def)
  have ap: "apply_delta scenario_azure destination_subscription
              [(''Microsoft.Compute'', True), (''Microsoft.Web'', False)]
            = ([Providers_register destination_id ''Microsoft.Compute'',
                Print (''Registering Microsoft.Compute in '' @ destination_id @ '' (Destination)''),
                Providers_unregister destination_id ''Microsoft.Web'',
                Print (''Unregistering Microsoft.Web in '' @ destination_id @ '' (Destination)'')],
               Inr ())"
    by (simp add: set_subscription_registration_def scenario_azure_def
        destination_subscription_def)
  from inst [OF ne, of "'' Yes ''"] yes_variants(1)
  have "filter is_registration_call
       (fst (replicate_registrations scenario_azure source_subscription destination_subscription
              (strategy_value SYNC) (Some '' Yes '')))
     = [Providers_register destination_id ''Microsoft.Compute'',
        Providers_unregister destination_id ''Microsoft.Web'']"
    by (simp add: sh ap del: apply_delta.simps)
  moreover from inst [OF ne, of "''''"] yes_variants(3)
  have "replicate_registrations scenario_azure source_subscription destination_subscription
        (strategy_value SYNC) (Some '''')
     = ([Providers_list source_id, Providers_list destination_id,
         Print (''The following changes will be made to subscription '' @ destination_id
                @ '' (Destination):''),
         Print ''Microsoft.Compute      => Register'',
         Print ''Microsoft.Web          => Unregister'',
         Input ''Enter 'yes' to proceed: '',
         Print ''Aborting!''], Inr ())"
    by (simp add: sh)
  ultimately show ?thesis
    using yes_variants by simp
qed

section \<open>Properties of the entry point\<close>

lemma scenario_ids_valid:
  "subscription_id_valid source_id" "subscription_id_valid destination_id"
  "source_id \<noteq> destination_id"
  by (simp_all add: source_id_def destination_id_def subscription_id_valid_def UUID_def
      strip_chars_def int_base16_def skip_sign_def skip_prefix_def int_space_def digit_value_def)

lemma repr_bogus: "repr_str ''bogus'' = [CHR 0x27] @ ''bogus'' @ [CHR 0x27]"
  by (simp add: repr_str_def repr_quote_def repr_char_def)

text \<open>
  Claim C6, as the code has it. The evaluator, given a strategy that equals no member
  of \<open>ReplicationStrategy\<close>, raises \<open>NotImplementedError\<close> whatever the snapshots
  are. \<open>main\<close>, given two distinct identifiers that pass validation and a strategy
  name that is the value of no member, raises the \<open>ValueError\<close> of the enumeration,
  with \<open>repr\<close> of the name in its message, before any call to Azure.
\<close>

theorem unknown_strategy_errors:
  assumes "strategy \<noteq> strategy_value ECHO" and "strategy \<noteq> strategy_value SYNC"
  shows "generate_registration_delta S D strategy
           = Inl (NotImplementedError (''Unrecognized replication strategy '' @ strategy @ ''!''))
       \<and> (source \<noteq> destination \<and> subscription_id_valid source
            \<and> subscription_id_valid destination \<longrightarrow>
          main az source destination (Some strategy) stdin
            = ([], Inl (ValueError (repr_str strategy @ '' is not a valid ReplicationStrategy''))))"
  using assms
  by (simp add: generate_registration_delta_def main_def ReplicationStrategy_call_def)

theorem unknown_strategy_errors_witness:
  "''bogus'' \<noteq> strategy_value ECHO \<and> ''bogus'' \<noteq> strategy_value SYNC
   \<and> source_id \<noteq> destination_id \<and> subscription_id_valid source_id
   \<and> subscription_id_valid destination_id
   \<and> generate_registration_delta scenario_source scenario_destination ''bogus''
       = Inl (NotImplementedError ''Unrecognized replication strategy bogus!'')
   \<and> main scenario_azure source_id destination_id (Some ''bogus'') (Some ''yes'')
       = ([], Inl (ValueError ([CHR 0x27] @ ''bogus'' @ [CHR 0x27]
                          @ '' is not a valid ReplicationStrategy'')))"
proof -
  have a: "''bogus'' \<noteq> strategy_value ECHO" and b: "''bogus'' \<noteq> strategy_value SYNC"
    by simp_all
  from unknown_strategy_errors [OF a b, of scenario_source scenario_destination
      source_id destination_id scenario_azure "Some ''yes''"] scenario_ids_valid a b
  show ?thesis
    by (simp add: repr_bogus)
qed

text \<open>
  Claim C6 as stated says that \<open>main\<close> fails with the same error as the evaluator.
  For the name \<open>bogus\<close> the two errors differ.
\<close>

theorem entry_validation_error_differs:
  "main scenario_azure source_id destination_id (Some ''bogus'') (Some ''yes'')
     = ([], Inl (ValueError ([CHR 0x27] @ ''bogus'' @ [CHR 0x27]
                          @ '' is not a valid ReplicationStrategy'')))
   \<and> generate_registration_delta scenario_source scenario_destination ''bogus''
       = Inl (NotImplementedError ''Unrecognized replication strategy bogus!'')
   \<and> snd (main scenario_azure source_id destination_id (Some ''bogus'') (Some ''yes''))
       \<noteq> Inl (NotImplementedError ''Unrecognized replication strategy bogus!'')"
  using scenario_ids_valid
  by (simp add: main_def ReplicationStrategy_call_def generate_registration_delta_def repr_bogus)

text \<open>
  A string in the textual form of a UUID, of whatever version, passes
  \<open>subscription_id_valid\<close>; so two distinct version 4 identifiers pass the checks
  of \<open>main\<close>.
\<close>

lemma hex_digit_facts:
  assumes "hex_digit c"
  shows "\<exists>d. digit_value c = Some d \<and> d < 16"
    and "c \<noteq> CHR ''_''" and "\<not> int_space c" and "c \<noteq> CHR ''+''" and "c \<noteq> CHR ''-''"
    and "c \<noteq> CHR ''x''" and "c \<noteq> CHR ''X''" and "c \<noteq> CHR ''u''"
    and "c \<noteq> CHR ''{''" and "c \<noteq> CHR ''}''"
  using assms by (auto simp: hex_digit_def digit_value_def int_space_def)

lemma replace_absent:
  "c0 \<notin> set s \<Longrightarrow> replace s (c0 # old) new = s"
  by (induction s) auto

lemma replace_char_by_nothing:
  "replace s [c0] [] = filter (\<lambda>c. c \<noteq> c0) s"
  by (induction s) auto

lemma dropWhile_none: "\<forall>c \<in> set s. \<not> P c \<Longrightarrow> dropWhile P s = s"
  by (cases s) auto

lemma strip_chars_none: "\<forall>c \<in> set s. c \<notin> set chars \<Longrightarrow> strip_chars s chars = s"
  by (simp add: strip_chars_def dropWhile_none)

lemma scan_hex_digits:
  assumes "\<forall>c \<in> set xs. hex_digit c" and "0 \<le> acc" and "xs \<noteq> [] \<or> \<not> prev"
  shows "\<exists>v. scan_digits xs prev acc = Some (v, []) \<and> 0 \<le> v \<and> v < (acc + 1) * 16 ^ length xs"
  using assms
proof (induction xs arbitrary: acc prev)
  case Nil
  then show ?case by simp
next
  case (Cons c cs)
  from Cons.prems(1) have h: "hex_digit c" by simp
  from hex_digit_facts(1) [OF h] obtain d where d: "digit_value c = Some d" "d < 16"
    by blast
  have acc': "0 \<le> acc * 16 + int d"
    using Cons.prems(2) by simp
  from Cons.IH [of "acc * 16 + int d" False] Cons.prems(1) acc'
  obtain v where v: "scan_digits cs False (acc * 16 + int d) = Some (v, [])" "0 \<le> v"
    "v < (acc * 16 + int d + 1) * 16 ^ length cs"
    by auto
  have "acc * 16 + int d + 1 \<le> (acc + 1) * 16"
    using d(2) by simp
  then have "(acc * 16 + int d + 1) * 16 ^ length cs \<le> ((acc + 1) * 16) * 16 ^ length cs"
    by (intro mult_right_mono) simp_all
  with v(3) have "v < ((acc + 1) * 16) * 16 ^ length cs"
    by (rule order.strict_trans2)
  moreover have "((acc + 1) * 16) * 16 ^ length cs = (acc + 1) * 16 ^ length (c # cs)"
    by (simp only: length_Cons power_Suc mult.assoc)
  ultimately have "v < (acc + 1) * 16 ^ length (c # cs)"
    by (simp only:)
  with v(1,2) d hex_digit_facts(2) [OF h] show ?case
    by simp
qed

lemma int_base16_hex_digits:
  assumes "\<forall>c \<in> set xs. hex_digit c" and "xs \<noteq> []"
  shows "\<exists>v. int_base16 xs = Inr v \<and> 0 \<le> v \<and> v < 16 ^ length xs"
proof -
  obtain c cs where xs: "xs = c # cs"
    using assms(2) by (cases xs) auto
  have h: "hex_digit c"
    using assms(1) by (simp add: xs)
  have sp: "dropWhile int_space xs = xs"
    using hex_digit_facts(3) [OF h] by (simp add: xs)
  have sg: "skip_sign xs = (1, xs)"
    using hex_digit_facts(4,5) [OF h] by (simp add: skip_sign_def xs)
  have pf: "skip_prefix xs = xs"
  proof (cases cs)
    case Nil
    then show ?thesis by (simp add: skip_prefix_def xs)
  next
    case (Cons c1 cs')
    then have "hex_digit c1"
      using assms(1) by (simp add: xs)
    from hex_digit_facts(6,7) [OF this] show ?thesis
      by (simp add: skip_prefix_def xs Cons)
  qed
  from scan_hex_digits [of xs 0 False] assms(1)
  obtain v where v: "scan_digits xs False 0 = Some (v, [])" "0 \<le> v" "v < 16 ^ length xs"
    by auto
  have "int_base16 xs = Inr v"
    using hex_digit_facts(2) [OF h] v(1)
    by (simp add: int_base16_def sp sg pf) (simp add: xs)
  with v(2,3) show ?thesis by blast
qed

lemma uuid_formatted_chars:
  assumes "uuid_formatted s" and "c \<in> set s"
  shows "hex_digit c \<or> c = CHR ''-''"
proof -
  from assms(2) have "char_shape c \<in> set (map char_shape s)"
    by simp
  also have "set (map char_shape s) = {Hex, Hyphen}"
    using assms(1) unfolding uuid_formatted_def by (simp only:) auto
  finally show ?thesis
    by (auto simp: char_shape_def split: if_splits)
qed

lemma uuid_formatted_digits:
  assumes "uuid_formatted s"
  shows "length (filter (\<lambda>c. c \<noteq> CHR ''-'') s) = 32"
    and "\<forall>c \<in> set (filter (\<lambda>c. c \<noteq> CHR ''-'') s). hex_digit c"
proof -
  have hy: "(char_shape c \<noteq> Hyphen) = (c \<noteq> CHR ''-'')" for c
    by (auto simp: char_shape_def hex_digit_def)
  have "map char_shape (filter (\<lambda>c. c \<noteq> CHR ''-'') s)
          = filter (\<lambda>h. h \<noteq> Hyphen) (map char_shape s)"
    by (simp add: filter_map comp_def hy)
  also have "\<dots> = replicate 32 Hex"
    using assms unfolding uuid_formatted_def by (simp only:) (simp add: eval_nat_numeral)
  finally have m: "map char_shape (filter (\<lambda>c. c \<noteq> CHR ''-'') s) = replicate 32 Hex" .
  from arg_cong [OF m, of length] show "length (filter (\<lambda>c. c \<noteq> CHR ''-'') s) = 32"
    by simp
  show "\<forall>c \<in> set (filter (\<lambda>c. c \<noteq> CHR ''-'') s). hex_digit c"
    using uuid_formatted_chars [OF assms] by auto
qed

lemma uuid_formatted_valid:
  assumes "uuid_formatted s"
  shows "subscription_id_valid s"
proof -
  let ?digits = "filter (\<lambda>c. c \<noteq> CHR ''-'') s"
  have no: "CHR ''u'' \<notin> set s" "\<forall>c \<in> set s. c \<notin> set ''{}''"
    using uuid_formatted_chars [OF assms] hex_digit_facts(8,9,10) by auto
  have r1: "replace (replace s ''urn:'' '''') ''uuid:'' '''' = s"
    using no(1) by (simp add: replace_absent)
  have r2: "replace (strip_chars s ''{}'') ''-'' '''' = ?digits"
    using no(2) by (simp only: strip_chars_none replace_char_by_nothing)
  from uuid_formatted_digits [OF assms] have len: "length ?digits = 32"
    and hex: "\<forall>c \<in> set ?digits. hex_digit c"
    by blast+
  from len have "?digits \<noteq> []" by auto
  from int_base16_hex_digits [OF hex this] len
  obtain v where v: "int_base16 ?digits = Inr v" "0 \<le> v" "v < 16 ^ 32"
    by auto
  have "\<exists>u. UUID s 4 = Inr u"
    using v len by (simp add: UUID_def r1 r2 Let_def)
  then show ?thesis
    by (auto simp: subscription_id_valid_def)
qed

lemma formatted_identifiers_pass:
  assumes "uuid4_formatted source" and "uuid4_formatted destination" and "source \<noteq> destination"
  shows "main az source destination strategy_name stdin =
     bind_io
       ([], case strategy_name of
              None \<Rightarrow> Inr DEFAULT_REPLICATION_STRATEGY
            | Some name \<Rightarrow> ReplicationStrategy_call name) (\<lambda>strategy.
     bind_io (get_subscription az source) (\<lambda>source_subscription.
     bind_io (get_subscription az destination) (\<lambda>destination_subscription.
       replicate_registrations az source_subscription destination_subscription
         (strategy_value strategy) stdin)))"
  using assms uuid_formatted_valid [of source] uuid_formatted_valid [of destination]
  by (simp add: main_def uuid4_formatted_def)

text \<open>
  Claim C5 says that \<open>main\<close> rejects a source identifier that is not a version 4
  UUID. \<open>UUID(hex=..., version=4)\<close> does not read the version of the string, it
  writes version 4 into the number: the version 1 identifier below passes
  \<open>subscription_id_valid\<close>, and \<open>main\<close> goes on to look the subscription up.
\<close>

theorem version_one_identifier_accepted:
  "uuid_formatted ''a8098c1a-f86e-11da-bd1a-00112444be1e''
   \<and> \<not> uuid4_formatted ''a8098c1a-f86e-11da-bd1a-00112444be1e''
   \<and> subscription_id_valid ''a8098c1a-f86e-11da-bd1a-00112444be1e''
   \<and> UUID ''a8098c1a-f86e-11da-bd1a-00112444be1e'' 4
       = Inr 0xa8098c1af86e41dabd1a00112444be1e
   \<and> main scenario_azure ''a8098c1a-f86e-11da-bd1a-00112444be1e'' destination_id None None
       = ([Subscriptions_get ''a8098c1a-f86e-11da-bd1a-00112444be1e''],
          Inl (ServiceError ''SubscriptionNotFound''))"
proof -
  have u: "UUID ''a8098c1a-f86e-11da-bd1a-00112444be1e'' 4
       = Inr 0xa8098c1af86e41dabd1a00112444be1e"
    by (simp add: UUID_def strip_chars_def int_base16_def skip_sign_def skip_prefix_def
        int_space_def digit_value_def set_variant_version_def)
  then have v: "subscription_id_valid ''a8098c1a-f86e-11da-bd1a-00112444be1e''"
    by (simp add: subscription_id_valid_def)
  have "main scenario_azure ''a8098c1a-f86e-11da-bd1a-00112444be1e'' destination_id None None
       = ([Subscriptions_get ''a8098c1a-f86e-11da-bd1a-00112444be1e''],
          Inl (ServiceError ''SubscriptionNotFound''))"
    using v scenario_ids_valid(2)
    by (simp add: main_def get_subscription_def scenario_azure_def destination_id_def
        source_id_def mirror_id_def)
  moreover have "uuid_formatted ''a8098c1a-f86e-11da-bd1a-00112444be1e''"
    by (simp add: uuid_formatted_def char_shape_def hex_digit_def eval_nat_numeral)
  moreover have "\<not> uuid4_formatted ''a8098c1a-f86e-11da-bd1a-00112444be1e''"
    by (simp add: uuid4_formatted_def)
  ultimately show ?thesis
    using u v by simp
qed

text \<open>A string that is no UUID at all is rejected, as source and as destination.\<close>

lemma not_a_guid_rejected:
  "\<not> subscription_id_valid ''not-a-guid''"
  "main az ''not-a-guid'' destination_id strategy_name stdin
     = ([], Inl (RuntimeError ''Source subscription ID doesn't appear to be a valid UUID.''))"
  "main az source_id ''not-a-guid'' strategy_name stdin
     = ([], Inl (RuntimeError ''Destination subscription ID doesn't appear to be a valid UUID.''))"
proof -
  show n: "\<not> subscription_id_valid ''not-a-guid''"
    by (simp add: subscription_id_valid_def UUID_def strip_chars_def)
  show "main az ''not-a-guid'' destination_id strategy_name stdin
     = ([], Inl (RuntimeError ''Source subscription ID doesn't appear to be a valid UUID.''))"
    using n by (simp add: main_def destination_id_def)
  show "main az source_id ''not-a-guid'' strategy_name stdin
     = ([], Inl (RuntimeError ''Destination subscription ID doesn't appear to be a valid UUID.''))"
    using n scenario_ids_valid(1) by (simp add: main_def source_id_def)
qed

end
